theory Spec2Isabelle
  imports Main "HOL-Library.AList"
begin

section \<open>The credit-card pay button of the partner portal\<close>

text \<open>
  A shallow embedding of \<^verbatim>\<open>credit-card-pay-button.js\<close>: the form validator
  \<^verbatim>\<open>isCreditCardFormValid\<close>, the click handler of \<^verbatim>\<open>CreditCardPayButton\<close>, its busy
  flag, and the label function \<^verbatim>\<open>ButtonContents\<close>.

  The store, the translation function \<^verbatim>\<open>__\<close>, the event emitter and the submission
  callback are collaborators that the source receives as arguments or from hooks. The
  store is a parameter of the model, as it is a parameter of the source function; a
  dispatch is a state transition of the store and is recorded, in order, in the list of
  effects a call returns. The translation function is the parameter \<open>tr\<close>.
\<close>

subsection \<open>JavaScript values and truthiness\<close>

text \<open>
  The values that the source tests for truthiness: the entries of the card-data error
  mapping (a message or a falsy value) and the \<^verbatim>\<open>activeButtonText\<close> prop. Numbers are
  integer-valued here (NaN is not represented).
\<close>

datatype jsval = JUndefined | JNull | JBool bool | JNum int | JStr string

fun truthy :: "jsval \<Rightarrow> bool" where
  "truthy JUndefined = False"
| "truthy JNull = False"
| "truthy (JBool b) = b"
| "truthy (JNum n) = (n \<noteq> 0)"
| "truthy (JStr s) = (s \<noteq> [])"

text \<open>
  A plain object is an association list of its own keys; \<open>keys\<close> is \<^verbatim>\<open>Object.keys\<close> and
  \<open>propOf obj k\<close> is \<^verbatim>\<open>obj[k]\<close>, which is \<^verbatim>\<open>undefined\<close> for an absent key.
\<close>

definition keys :: "(string \<times> jsval) list \<Rightarrow> string list" where
  "keys obj = map fst obj"

definition propOf :: "(string \<times> jsval) list \<Rightarrow> string \<Rightarrow> jsval" where
  "propOf obj k = (case map_of obj k of None \<Rightarrow> JUndefined | Some v \<Rightarrow> v)"

subsection \<open>The Field Store\<close>

text \<open>
  A Field record, as far as this code reads it: its \<^verbatim>\<open>value\<close>, a string. The fields
  mapping is partial, so \<^verbatim>\<open>fields.cardholderName\<close> may be \<^verbatim>\<open>undefined\<close> (\<open>None\<close>).
\<close>

record field =
  field_value :: string

text \<open>
  The two action creators the validator calls, \<^verbatim>\<open>store.actions.setFieldValue( key, value )\<close>
  and \<^verbatim>\<open>store.actions.setCardDataError( key, message )\<close>.
\<close>

datatype action = setFieldValue string string | setCardDataError string string

text \<open>
  The store argument: its three selectors, applied by the source to \<^verbatim>\<open>store.getState()\<close>,
  and the state transition that \<^verbatim>\<open>store.dispatch\<close> performs for an action.
\<close>

record 's store =
  getFields :: "'s \<Rightarrow> string \<rightharpoonup> field"
  getCardDataErrors :: "'s \<Rightarrow> (string \<times> jsval) list"
  getIncompleteFieldKeys :: "'s \<Rightarrow> string list"
  reducer :: "action \<Rightarrow> 's \<Rightarrow> 's"

text \<open>
  \<^verbatim>\<open>store.dispatch( a )\<close>: the store moves to its next state and the action is appended
  to the actions dispatched so far.
\<close>

definition dispatch :: "'s store \<Rightarrow> action \<Rightarrow> 's \<times> action list \<Rightarrow> 's \<times> action list" where
  "dispatch store a run = (reducer store a (fst run), snd run @ [a])"

subsection \<open>The validator\<close>

datatype error = RangeError string | Error string

text \<open>The double-quote character of the two error messages.\<close>

definition dquote :: string where
  "dquote = [CHR 0x22]"

text \<open>\<^verbatim>\<open>! cardholderName?.value.length\<close>: true for a missing field and for a value of length 0.\<close>

definition noValueLength :: "field option \<Rightarrow> bool" where
  "noValueLength cardholderName =
     (case cardholderName of None \<Rightarrow> True | Some f \<Rightarrow> length (field_value f) = 0)"

text \<open>
  \<^verbatim>\<open>isCreditCardFormValid( store, paymentPartner, __ )\<close>, called in store state \<open>s0\<close>. The
  result is the value returned or the error thrown, the state the store is left in, and
  the actions dispatched, in order.
\<close>

definition isCreditCardFormValid ::
  "'s store \<Rightarrow> string \<Rightarrow> (string \<Rightarrow> string) \<Rightarrow> 's \<Rightarrow> (error + bool) \<times> 's \<times> action list" where
  "isCreditCardFormValid store paymentPartner tr s0 =
     (if paymentPartner = ''stripe'' then
        (let fields = getFields store s0;
             cardholderName = fields ''cardholderName'';
             run1 = (if noValueLength cardholderName
                     then dispatch store (setFieldValue ''cardholderName'' '''') (s0, [])
                     else (s0, []));
             errors = getCardDataErrors store (fst run1);
             incompleteFieldKeys = getIncompleteFieldKeys store (fst run1);
             areThereErrors = list_ex (\<lambda>errorKey. truthy (propOf errors errorKey)) (keys errors);
             run2 = (if length incompleteFieldKeys > 0
                     then fold (\<lambda>key. dispatch store
                                  (setCardDataError key (tr ''This field is required'')))
                            incompleteFieldKeys run1
                     else run1)
         in if areThereErrors \<or> noValueLength cardholderName \<or> length incompleteFieldKeys > 0
            then (Inr False, run2)
            else (Inr True, run2))
      else (Inl (RangeError (''Unexpected payment partner '' @ dquote @ paymentPartner @ dquote)),
            s0, []))"

subsection \<open>The button: click handler, busy flag and label\<close>

text \<open>
  Modelled from the spec: the \<^verbatim>\<open>FormStatus\<close> enumeration of the checkout package, whose
  declaration is not part of these sources.
\<close>

datatype FormStatus = LOADING | READY | SUBMITTING | COMPLETE

text \<open>A line item, as far as this code reads it: \<^verbatim>\<open>total.amount.displayValue\<close>.\<close>

record item_amount =
  displayValue :: string

record line_item =
  amount :: item_amount

text \<open>The object handed to the submission callback.\<close>

record ('h, 'c) payload =
  payload_stripe :: 'h
  payload_name :: jsval
  payload_items :: "line_item list"
  payload_total :: line_item
  payload_stripeConfiguration :: 'c
  payload_paymentPartner :: string

text \<open>
  What a click does to the outside, in order: a store dispatch, an event given to
  \<^verbatim>\<open>onEvent\<close>, or a call of the \<^verbatim>\<open>onClick\<close> prop with a method tag and a payload.
\<close>

datatype ('h, 'c) effect =
    Dispatch action
  | Event string
  | Submit string "('h, 'c) payload"

text \<open>
  The handler that \<^verbatim>\<open>CreditCardPayButton\<close> gives the rendered button as its
  \<^verbatim>\<open>onClick\<close>. \<open>cardholderName\<close>, \<open>items\<close> and \<open>total'\<close> are the values the
  component held when it rendered: \<open>cardholderName\<close> is
  \<^verbatim>\<open>fields.cardholderName\<close> of the fields that \<^verbatim>\<open>useSelect\<close> returned, and
  \<^verbatim>\<open>cardholderName?.value\<close> is \<^verbatim>\<open>undefined\<close> when there is no such entry.
\<close>

definition CreditCardPayButton_onClick ::
  "'s store \<Rightarrow> (string \<Rightarrow> string) \<Rightarrow> 'h \<Rightarrow> 'c \<Rightarrow> field option \<Rightarrow> line_item list \<Rightarrow> line_item
     \<Rightarrow> 's \<Rightarrow> (error + unit) \<times> 's \<times> ('h, 'c) effect list" where
  "CreditCardPayButton_onClick store tr stripe stripeConfiguration cardholderName items total' s0 =
     (let paymentPartner = ''stripe''
      in case isCreditCardFormValid store paymentPartner tr s0 of
           (Inl e, s1, dispatched) \<Rightarrow> (Inl e, s1, map Dispatch dispatched)
         | (Inr valid, s1, dispatched) \<Rightarrow>
             if valid then
               if paymentPartner = ''stripe'' then
                 (Inr (), s1,
                  map Dispatch dispatched @
                  [Event ''STRIPE_TRANSACTION_BEGIN'',
                   Submit ''card''
                     \<lparr> payload_stripe = stripe,
                       payload_name = (case cardholderName of None \<Rightarrow> JUndefined
                                       | Some f \<Rightarrow> JStr (field_value f)),
                       payload_items = items,
                       payload_total = total',
                       payload_stripeConfiguration = stripeConfiguration,
                       payload_paymentPartner = paymentPartner \<rparr>])
               else
                 (Inl (Error (''Unrecognized payment partner in submit handler: '' @ dquote
                              @ paymentPartner @ dquote)),
                  s1, map Dispatch dispatched)
             else (Inr (), s1, map Dispatch dispatched))"

text \<open>\<^verbatim>\<open>busy={ FormStatus.SUBMITTING === formStatus }\<close>\<close>

definition busy :: "FormStatus \<Rightarrow> bool" where
  "busy formStatus = (SUBMITTING = formStatus)"

text \<open>
  Modelled from the spec: \<^verbatim>\<open>sprintf\<close> of the i18n package, for one argument and a format
  whose only directive is \<^verbatim>\<open>%s\<close>: the first \<^verbatim>\<open>%s\<close> is replaced by the argument.
\<close>

fun sprintf :: "string \<Rightarrow> string \<Rightarrow> string" where
  "sprintf [] arg = []"
| "sprintf [c] arg = [c]"
| "sprintf (c # d # cs) arg =
     (if c = CHR ''%'' \<and> d = CHR ''s'' then arg @ cs else c # sprintf (d # cs) arg)"

text \<open>The horizontal ellipsis U+2026 of the two labels, as its UTF-8 bytes.\<close>

definition ellipsis :: string where
  "ellipsis = [CHR 0xE2, CHR 0x80, CHR 0xA6]"

text \<open>
  \<^verbatim>\<open>ButtonContents( { formStatus, total, activeButtonText } )\<close>. The result is a value,
  since \<^verbatim>\<open>activeButtonText || ...\<close> returns the prop itself whenever it is truthy.
\<close>

definition ButtonContents :: "(string \<Rightarrow> string) \<Rightarrow> FormStatus \<Rightarrow> line_item \<Rightarrow> jsval \<Rightarrow> jsval" where
  "ButtonContents tr formStatus total' activeButtonText =
     (if formStatus = SUBMITTING then JStr (tr (''Processing'' @ ellipsis))
      else if formStatus = READY then
        (if truthy activeButtonText then activeButtonText
         else JStr (sprintf (tr ''Pay %s'') (displayValue (amount total'))))
      else JStr (tr (''Please wait'' @ ellipsis)))"

subsection \<open>A reference store\<close>

text \<open>
  Modelled from the spec: the credit-card store, whose reducer and selectors are not part
  of these sources. Its state holds the fields mapping, the card-data error mapping and
  the list of incomplete field keys; "set field value" writes the value of the one named
  field, and "set card data error" writes the message of the one named error key. The
  concrete instances below run the validator and the click handler on this store.
\<close>

record cc_state =
  st_fields :: "string \<rightharpoonup> field"
  st_cardDataErrors :: "(string \<times> jsval) list"
  st_incompleteFieldKeys :: "string list"

fun creditCardReducer :: "action \<Rightarrow> cc_state \<Rightarrow> cc_state" where
  "creditCardReducer (setFieldValue key v) s =
     s\<lparr>st_fields := (st_fields s)(key \<mapsto> \<lparr>field_value = v\<rparr>)\<rparr>"
| "creditCardReducer (setCardDataError key message) s =
     s\<lparr>st_cardDataErrors := AList.update key (JStr message) (st_cardDataErrors s)\<rparr>"

definition creditCardStore :: "cc_state store" where
  "creditCardStore =
     \<lparr> getFields = st_fields,
       getCardDataErrors = st_cardDataErrors,
       getIncompleteFieldKeys = st_incompleteFieldKeys,
       reducer = creditCardReducer \<rparr>"

text \<open>
  Frame conditions on a store, whose reducer the validator does not determine: a "set
  field value" write changes no other field, no error entry and not the incomplete keys,
  and a "set card data error" write changes no field and no other error entry.
\<close>

definition writesOnlyNamedKey :: "'s store \<Rightarrow> bool" where
  "writesOnlyNamedKey store \<longleftrightarrow>
     (\<forall>key v s.
        (\<forall>j. j \<noteq> key \<longrightarrow>
           getFields store (reducer store (setFieldValue key v) s) j = getFields store s j) \<and>
        getCardDataErrors store (reducer store (setFieldValue key v) s) = getCardDataErrors store s \<and>
        getIncompleteFieldKeys store (reducer store (setFieldValue key v) s)
          = getIncompleteFieldKeys store s) \<and>
     (\<forall>key m s.
        getFields store (reducer store (setCardDataError key m) s) = getFields store s \<and>
        (\<forall>j. j \<noteq> key \<longrightarrow>
           map_of (getCardDataErrors store (reducer store (setCardDataError key m) s)) j
             = map_of (getCardDataErrors store s) j))"

subsection \<open>Observing what a call did\<close>

text \<open>The two kinds of dispatched action, and the effects of a click that are dispatches.\<close>

fun isSetFieldValue :: "action \<Rightarrow> bool" where
  "isSetFieldValue (setFieldValue key v) = True"
| "isSetFieldValue (setCardDataError key m) = False"

fun isSetCardDataError :: "action \<Rightarrow> bool" where
  "isSetCardDataError (setFieldValue key v) = False"
| "isSetCardDataError (setCardDataError key m) = True"

fun isDispatch :: "('h, 'c) effect \<Rightarrow> bool" where
  "isDispatch (Dispatch a) = True"
| "isDispatch (Event t) = False"
| "isDispatch (Submit m p) = False"

text \<open>
  The trimmed form of a string (\<^verbatim>\<open>String.prototype.trim\<close>, on ASCII white space), which
  the specification of the validator speaks of. The source never calls it.
\<close>

definition isSpaceChar :: "char \<Rightarrow> bool" where
  "isSpaceChar c \<longleftrightarrow> c \<in> set [CHR 0x09, CHR 0x0A, CHR 0x0B, CHR 0x0C, CHR 0x0D, CHR 0x20]"

definition trim :: "string \<Rightarrow> string" where
  "trim s = rev (dropWhile isSpaceChar (rev (dropWhile isSpaceChar s)))"

subsection \<open>Concrete store states and a total\<close>

definition validState :: cc_state where
  "validState =
     \<lparr> st_fields = [''cardholderName'' \<mapsto> \<lparr>field_value = ''Ada Lovelace''\<rparr>],
       st_cardDataErrors = [(''cardNumber'', JStr ''''), (''cardCvc'', JUndefined)],
       st_incompleteFieldKeys = [] \<rparr>"

definition incompleteState :: cc_state where
  "incompleteState =
     \<lparr> st_fields = [''cardholderName'' \<mapsto> \<lparr>field_value = ''Ada Lovelace''\<rparr>],
       st_cardDataErrors = [],
       st_incompleteFieldKeys = [''cardCvc'', ''cardExpiry''] \<rparr>"

definition blankNameState :: cc_state where
  "blankNameState =
     \<lparr> st_fields = [''cardholderName'' \<mapsto> \<lparr>field_value = ''  ''\<rparr>],
       st_cardDataErrors = [],
       st_incompleteFieldKeys = [] \<rparr>"

definition emptyNameState :: cc_state where
  "emptyNameState =
     \<lparr> st_fields = [''cardholderName'' \<mapsto> \<lparr>field_value = ''''\<rparr>],
       st_cardDataErrors = [],
       st_incompleteFieldKeys = [''cardNumber'', ''cardExpiry''] \<rparr>"

definition missingNameState :: cc_state where
  "missingNameState =
     \<lparr> st_fields = Map.empty,
       st_cardDataErrors = [],
       st_incompleteFieldKeys = [] \<rparr>"

definition frameState :: cc_state where
  "frameState =
     \<lparr> st_fields = [''postalCode'' \<mapsto> \<lparr>field_value = ''90210''\<rparr>],
       st_cardDataErrors = [(''cardNumber'', JStr ''Your card number is invalid.'')],
       st_incompleteFieldKeys = [''cardCvc''] \<rparr>"

definition total999 :: line_item where
  "total999 = \<lparr>amount = \<lparr>displayValue = ''$9.99''\<rparr>\<rparr>"

section \<open>Properties\<close>

subsection \<open>Auxiliary facts\<close>

text \<open>
  \<^verbatim>\<open>Object.keys( errors ).some( ( errorKey ) => errors[ errorKey ] )\<close> holds exactly when
  some value of the mapping is truthy.
\<close>

lemma areThereErrors_iff:
  "list_ex (\<lambda>errorKey. truthy (propOf errs errorKey)) (keys errs)
     \<longleftrightarrow> (\<exists>v \<in> ran (map_of errs). truthy v)"
proof
  assume "list_ex (\<lambda>errorKey. truthy (propOf errs errorKey)) (keys errs)"
  then obtain k where k: "k \<in> fst ` set errs" and t: "truthy (propOf errs k)"
    by (auto simp: list_ex_iff keys_def)
  from k obtain v where v: "map_of errs k = Some v"
    by (metis map_of_eq_None_iff not_Some_eq)
  with t have "truthy v" by (simp add: propOf_def)
  moreover from v have "v \<in> ran (map_of errs)" by (auto simp: ran_def)
  ultimately show "\<exists>v \<in> ran (map_of errs). truthy v" by blast
next
  assume "\<exists>v \<in> ran (map_of errs). truthy v"
  then obtain k v where v: "map_of errs k = Some v" and t: "truthy v"
    by (auto simp: ran_def)
  from v have "k \<in> fst ` set errs" by (metis map_of_eq_None_iff option.distinct(1))
  moreover from v t have "truthy (propOf errs k)" by (simp add: propOf_def)
  ultimately show "list_ex (\<lambda>errorKey. truthy (propOf errs errorKey)) (keys errs)"
    by (auto simp: list_ex_iff keys_def)
qed

text \<open>A run of dispatches moves the state by the reducer and appends the actions in order.\<close>

lemma fold_dispatch:
  "fold (\<lambda>key. dispatch store (f key)) ks run
     = (fold (\<lambda>key. reducer store (f key)) ks (fst run), snd run @ map f ks)"
  by (induction ks arbitrary: run) (simp_all add: dispatch_def)

lemma filter_map_errors:
  "filter isSetCardDataError (map (\<lambda>key. setCardDataError key m) ks)
     = map (\<lambda>key. setCardDataError key m) ks"
  "filter isSetFieldValue (map (\<lambda>key. setCardDataError key m) ks) = []"
  by (induction ks) simp_all

lemma filter_not_isDispatch: "filter (\<lambda>e. \<not> isDispatch e) (map Dispatch acts) = []"
  by (induction acts) simp_all

text \<open>
  The validator for partner \<^verbatim>\<open>"stripe"\<close> in closed form: \<open>s1\<close> is the state in which the
  errors and the incomplete keys are read, after the touch when there is one.
\<close>

lemma validator_stripe:
  "isCreditCardFormValid store ''stripe'' tr s =
     (let c = getFields store s ''cardholderName'';
          s1 = (if noValueLength c
                then reducer store (setFieldValue ''cardholderName'' '''') s else s);
          ks = getIncompleteFieldKeys store s1
      in (Inr (\<not> (list_ex (\<lambda>k. truthy (propOf (getCardDataErrors store s1) k))
                      (keys (getCardDataErrors store s1))
                    \<or> noValueLength c \<or> ks \<noteq> [])),
          fold (\<lambda>key. reducer store (setCardDataError key (tr ''This field is required''))) ks s1,
          (if noValueLength c then [setFieldValue ''cardholderName'' ''''] else [])
            @ map (\<lambda>key. setCardDataError key (tr ''This field is required'')) ks))"
  by (simp add: isCreditCardFormValid_def Let_def fold_dispatch dispatch_def)

lemma validator_valid:
  "fst (isCreditCardFormValid store ''stripe'' tr s) = Inr True \<Longrightarrow>
   isCreditCardFormValid store ''stripe'' tr s = (Inr True, s, [])
   \<and> (\<exists>f. getFields store s ''cardholderName'' = Some f \<and> field_value f \<noteq> [])"
  by (auto simp: validator_stripe Let_def noValueLength_def split: if_splits option.splits)

lemma fold_errors_frame:
  assumes "writesOnlyNamedKey store"
  shows "getFields store (fold (\<lambda>key. reducer store (setCardDataError key m)) ks s)
           = getFields store s
       \<and> (\<forall>j. j \<notin> set ks \<longrightarrow>
            map_of (getCardDataErrors store
                      (fold (\<lambda>key. reducer store (setCardDataError key m)) ks s)) j
              = map_of (getCardDataErrors store s) j)"
proof (induction ks arbitrary: s)
  case Nil
  show ?case by simp
next
  case (Cons k ks)
  from assms have step:
    "getFields store (reducer store (setCardDataError k m) s) = getFields store s"
    "\<And>j. j \<noteq> k \<Longrightarrow> map_of (getCardDataErrors store (reducer store (setCardDataError k m) s)) j
                    = map_of (getCardDataErrors store s) j"
    by (simp_all add: writesOnlyNamedKey_def)
  from Cons.IH [of "reducer store (setCardDataError k m) s"] step show ?case
    by simp
qed

subsection \<open>The validator's result\<close>

text \<open>
  C1. For partner \<^verbatim>\<open>"stripe"\<close>, every store and every state of it, the validator returns
  a boolean, and it returns \<open>false\<close> if and only if some value of the card-data error
  mapping is truthy, or the \<open>cardholderName\<close> field has an empty value (a store without
  that field has no value to offer and counts as empty), or the list of incomplete field
  keys is non-empty; otherwise it returns \<open>true\<close>. All three are read off the state in
  which the validator is called.
\<close>

theorem validator_result:
  "fst (isCreditCardFormValid store ''stripe'' tr s) =
     Inr (\<not> ((\<exists>v \<in> ran (map_of (getCardDataErrors store s)). truthy v)
            \<or> (case getFields store s ''cardholderName'' of
                  None \<Rightarrow> True | Some f \<Rightarrow> field_value f = [])
            \<or> getIncompleteFieldKeys store s \<noteq> []))"
  by (auto simp: validator_stripe Let_def areThereErrors_iff noValueLength_def
           split: option.splits)

theorem validator_result_witness:
  "fst (isCreditCardFormValid creditCardStore ''stripe'' (\<lambda>t. t) validState) = Inr True
   \<and> fst (isCreditCardFormValid creditCardStore ''stripe'' (\<lambda>t. t) incompleteState) = Inr False"
  using validator_result [of creditCardStore "\<lambda>t. t" validState]
        validator_result [of creditCardStore "\<lambda>t. t" incompleteState]
  by (simp add: creditCardStore_def validState_def incompleteState_def)

text \<open>
  C3. For every partner other than \<^verbatim>\<open>"stripe"\<close> and every state, the validator throws:
  the call yields the \<^verbatim>\<open>RangeError\<close> "Unexpected payment partner" naming the partner,
  which nothing in the validator catches, so there is no boolean result; no action has
  been dispatched and the store is in the state it was in.
\<close>

theorem unexpected_partner:
  "paymentPartner \<noteq> ''stripe'' \<Longrightarrow>
   isCreditCardFormValid store paymentPartner tr s =
     (Inl (RangeError (''Unexpected payment partner '' @ dquote @ paymentPartner @ dquote)), s, [])"
  by (simp add: isCreditCardFormValid_def)

theorem unexpected_partner_witness:
  "isCreditCardFormValid creditCardStore ''paypal'' (\<lambda>t. t) validState =
     (Inl (RangeError (''Unexpected payment partner '' @ dquote @ ''paypal'' @ dquote)),
      validState, [])"
  using unexpected_partner [of "''paypal''" creditCardStore "\<lambda>t. t" validState] by simp

text \<open>
  C4. When the list of incomplete field keys has N keys, N at least 1, the validator
  (partner \<^verbatim>\<open>"stripe"\<close>) returns \<open>false\<close> and its "set card data error" dispatches are
  exactly N, one per incomplete key in the order of the list, each with the translation
  of "This field is required" as its message (that text itself under the identity
  translation). The touch write of the store is taken to leave the incomplete keys as
  they are.
\<close>

theorem incomplete_keys_errors:
  assumes "getIncompleteFieldKeys store (reducer store (setFieldValue ''cardholderName'' '''') s)
             = getIncompleteFieldKeys store s"
    and "getIncompleteFieldKeys store s = ks"
    and "1 \<le> length ks"
  shows "fst (isCreditCardFormValid store ''stripe'' tr s) = Inr False
       \<and> filter isSetCardDataError (snd (snd (isCreditCardFormValid store ''stripe'' tr s)))
           = map (\<lambda>key. setCardDataError key (tr ''This field is required'')) ks
       \<and> length (filter isSetCardDataError (snd (snd (isCreditCardFormValid store ''stripe'' tr s))))
           = length ks"
proof -
  from assms(3) have "ks \<noteq> []" by auto
  with assms(1,2) show ?thesis
    by (simp add: validator_stripe Let_def filter_map_errors)
qed

theorem incomplete_keys_errors_witness:
  "fst (isCreditCardFormValid creditCardStore ''stripe'' (\<lambda>t. t) emptyNameState) = Inr False
   \<and> filter isSetCardDataError
       (snd (snd (isCreditCardFormValid creditCardStore ''stripe'' (\<lambda>t. t) emptyNameState)))
       = [setCardDataError ''cardNumber'' ''This field is required'',
          setCardDataError ''cardExpiry'' ''This field is required'']"
  using incomplete_keys_errors
          [of creditCardStore emptyNameState "[''cardNumber'', ''cardExpiry'']" "\<lambda>t. t"]
  by (simp add: creditCardStore_def emptyNameState_def)

subsection \<open>The cardholder name\<close>

text \<open>
  C5, as stated, fails for a whitespace-only name. The validator tests the length of the
  value and never trims it: with the name \<^verbatim>\<open>"  "\<close>, whose trimmed form is empty, no
  errors and no incomplete keys, it returns \<open>true\<close> and dispatches nothing.
\<close>

theorem whitespace_name_counterexample:
  "st_fields blankNameState ''cardholderName'' = Some \<lparr>field_value = ''  ''\<rparr>
   \<and> trim ''  '' = ''''
   \<and> isCreditCardFormValid creditCardStore ''stripe'' (\<lambda>t. t) blankNameState
       = (Inr True, blankNameState, [])
   \<and> fst (isCreditCardFormValid creditCardStore ''stripe'' (\<lambda>t. t) blankNameState) \<noteq> Inr False
   \<and> filter isSetFieldValue
       (snd (snd (isCreditCardFormValid creditCardStore ''stripe'' (\<lambda>t. t) blankNameState)))
       \<noteq> [setFieldValue ''cardholderName'' '''']"
  by (simp add: isCreditCardFormValid_def creditCardStore_def blankNameState_def
                noValueLength_def keys_def trim_def isSpaceChar_def)

text \<open>
  C5, amended. When the \<open>cardholderName\<close> field has a value of length zero (the empty
  string; the value is not trimmed), the validator (partner \<^verbatim>\<open>"stripe"\<close>) returns
  \<open>false\<close>, and its "set field value" dispatches are exactly one: the touch of
  \<open>cardholderName\<close> with the empty string.
\<close>

theorem empty_name_touched:
  assumes "getFields store s ''cardholderName'' = Some f"
    and "length (field_value f) = 0"
  shows "fst (isCreditCardFormValid store ''stripe'' tr s) = Inr False
       \<and> filter isSetFieldValue (snd (snd (isCreditCardFormValid store ''stripe'' tr s)))
           = [setFieldValue ''cardholderName'' '''']"
  using assms by (simp add: validator_stripe Let_def noValueLength_def filter_map_errors)

theorem empty_name_touched_witness:
  "fst (isCreditCardFormValid creditCardStore ''stripe'' (\<lambda>t. t) emptyNameState) = Inr False
   \<and> filter isSetFieldValue
       (snd (snd (isCreditCardFormValid creditCardStore ''stripe'' (\<lambda>t. t) emptyNameState)))
       = [setFieldValue ''cardholderName'' '''']"
  using empty_name_touched
          [of creditCardStore emptyNameState "\<lparr>field_value = ''''\<rparr>" "\<lambda>t. t"]
  by (simp add: creditCardStore_def emptyNameState_def)

text \<open>
  C9. When the fields mapping has no \<open>cardholderName\<close> entry, the validator (partner
  \<^verbatim>\<open>"stripe"\<close>) does not throw: it returns \<open>false\<close>, and it dispatches the touch of
  \<open>cardholderName\<close> with the empty string once, first, followed only by the error writes
  for the incomplete keys, as it does for a field with an empty value.
\<close>

theorem missing_name_touched:
  assumes "getFields store s ''cardholderName'' = None"
  shows "isCreditCardFormValid store ''stripe'' tr s =
           (Inr False,
            fold (\<lambda>key. reducer store (setCardDataError key (tr ''This field is required'')))
              (getIncompleteFieldKeys store (reducer store (setFieldValue ''cardholderName'' '''') s))
              (reducer store (setFieldValue ''cardholderName'' '''') s),
            setFieldValue ''cardholderName'' '''' #
            map (\<lambda>key. setCardDataError key (tr ''This field is required''))
              (getIncompleteFieldKeys store (reducer store (setFieldValue ''cardholderName'' '''') s)))
       \<and> filter isSetFieldValue (snd (snd (isCreditCardFormValid store ''stripe'' tr s)))
           = [setFieldValue ''cardholderName'' '''']"
  using assms by (simp add: validator_stripe Let_def noValueLength_def filter_map_errors)

theorem missing_name_touched_witness:
  "isCreditCardFormValid creditCardStore ''stripe'' (\<lambda>t. t) missingNameState =
     (Inr False,
      missingNameState\<lparr>st_fields := [''cardholderName'' \<mapsto> \<lparr>field_value = ''''\<rparr>]\<rparr>,
      [setFieldValue ''cardholderName'' ''''])"
  using missing_name_touched [of creditCardStore missingNameState "\<lambda>t. t"]
  by (simp add: creditCardStore_def missingNameState_def)

subsection \<open>A valid store\<close>

text \<open>
  C7. When the \<open>cardholderName\<close> value is non-empty, no value of the error mapping is
  truthy and the list of incomplete keys is empty, the validator (partner \<^verbatim>\<open>"stripe"\<close>)
  returns \<open>true\<close>, dispatches nothing and leaves the store in its state; a second call,
  made in the state the first one left, again returns \<open>true\<close> and dispatches nothing.
\<close>

theorem valid_store_no_dispatch:
  assumes "getFields store s ''cardholderName'' = Some f"
    and "field_value f \<noteq> []"
    and "\<forall>v \<in> ran (map_of (getCardDataErrors store s)). \<not> truthy v"
    and "getIncompleteFieldKeys store s = []"
  shows "isCreditCardFormValid store ''stripe'' tr s = (Inr True, s, [])
       \<and> isCreditCardFormValid store ''stripe'' tr
           (fst (snd (isCreditCardFormValid store ''stripe'' tr s))) = (Inr True, s, [])"
proof -
  from assms have "isCreditCardFormValid store ''stripe'' tr s = (Inr True, s, [])"
    by (simp add: validator_stripe Let_def noValueLength_def areThereErrors_iff)
  then show ?thesis by simp
qed

theorem valid_store_no_dispatch_witness:
  "isCreditCardFormValid creditCardStore ''stripe'' (\<lambda>t. t) validState = (Inr True, validState, [])
   \<and> isCreditCardFormValid creditCardStore ''stripe'' (\<lambda>t. t)
       (fst (snd (isCreditCardFormValid creditCardStore ''stripe'' (\<lambda>t. t) validState)))
       = (Inr True, validState, [])"
  using valid_store_no_dispatch
          [of creditCardStore validState "\<lparr>field_value = ''Ada Lovelace''\<rparr>" "\<lambda>t. t"]
  by (simp add: creditCardStore_def validState_def)

subsection \<open>Label and busy flag\<close>

text \<open>
  C6. The label and the busy flag are functions of the form status, the total and the
  \<^verbatim>\<open>activeButtonText\<close> prop. With status \<open>SUBMITTING\<close> the label is the translation of
  "Processing..." (with the ellipsis character), whatever the total, and the button is
  busy. With status \<open>READY\<close> the label is the override when one is given as a non-empty
  text, and with no override it is the translation of "Pay %s" with the total's display
  value put in, which is "Pay " followed by that value under the identity translation;
  the button is not busy. With any other status the label is the translation of
  "Please wait..." and the button is not busy.
\<close>

theorem button_label_and_busy:
  "ButtonContents tr SUBMITTING total' activeButtonText = JStr (tr (''Processing'' @ ellipsis))
   \<and> busy SUBMITTING
   \<and> (t \<noteq> [] \<longrightarrow> ButtonContents tr READY total' (JStr t) = JStr t)
   \<and> ButtonContents tr READY total' JUndefined
       = JStr (sprintf (tr ''Pay %s'') (displayValue (amount total')))
   \<and> ButtonContents (\<lambda>t. t) READY total' JUndefined
       = JStr (''Pay '' @ displayValue (amount total'))
   \<and> \<not> busy READY
   \<and> (formStatus \<noteq> SUBMITTING \<and> formStatus \<noteq> READY \<longrightarrow>
        ButtonContents tr formStatus total' activeButtonText = JStr (tr (''Please wait'' @ ellipsis))
        \<and> \<not> busy formStatus)"
  by (auto simp: ButtonContents_def busy_def)

theorem button_label_and_busy_witness:
  "ButtonContents (\<lambda>t. t) SUBMITTING total999 JUndefined = JStr (''Processing'' @ ellipsis)
   \<and> ButtonContents (\<lambda>t. t) READY total999 (JStr ''Save payment method'')
       = JStr ''Save payment method''
   \<and> ButtonContents (\<lambda>t. t) READY total999 JUndefined = JStr ''Pay $9.99''
   \<and> ButtonContents (\<lambda>t. t) LOADING total999 JUndefined = JStr (''Please wait'' @ ellipsis)
   \<and> \<not> busy LOADING"
  using button_label_and_busy [of "\<lambda>t. t" total999 JUndefined "''Save payment method''" LOADING]
  by (simp add: total999_def)

text \<open>
  C8. With status \<open>READY\<close> the override is used only when it is truthy, and then it is
  the label. For every falsy \<^verbatim>\<open>activeButtonText\<close>, the empty string among them, the
  label is the one of a call without override: the translation of "Pay %s" with the
  total's display value put in, "Pay " followed by that value under the identity
  translation.
\<close>

theorem falsy_override_falls_back:
  "(\<not> truthy activeButtonText \<longrightarrow>
      ButtonContents tr READY total' activeButtonText
        = JStr (sprintf (tr ''Pay %s'') (displayValue (amount total')))
      \<and> ButtonContents tr READY total' activeButtonText
        = ButtonContents tr READY total' JUndefined
      \<and> ButtonContents (\<lambda>t. t) READY total' activeButtonText
        = JStr (''Pay '' @ displayValue (amount total')))
   \<and> (truthy activeButtonText \<longrightarrow>
        ButtonContents tr READY total' activeButtonText = activeButtonText)"
  by (simp add: ButtonContents_def)

theorem falsy_override_falls_back_witness:
  "ButtonContents (\<lambda>t. t) READY total999 (JStr '''') = JStr ''Pay $9.99''
   \<and> ButtonContents (\<lambda>t. t) READY total999 (JStr '''')
       = ButtonContents (\<lambda>t. t) READY total999 JUndefined
   \<and> ButtonContents (\<lambda>t. t) READY total999 JNull = JStr ''Pay $9.99''"
  using falsy_override_falls_back [of "JStr ''''" "\<lambda>t. t" total999]
        falsy_override_falls_back [of JNull "\<lambda>t. t" total999]
  by (auto simp: total999_def)

subsection \<open>The click\<close>

text \<open>
  C2. A click runs the validator with partner \<^verbatim>\<open>"stripe"\<close>, which returns \<open>true\<close> or
  \<open>false\<close>. When it returns \<open>true\<close>, the click does exactly two things, in this order:
  it emits one event of type \<^verbatim>\<open>STRIPE_TRANSACTION_BEGIN\<close> and calls the submission callback
  once, with the method tag \<^verbatim>\<open>"card"\<close> and a payload that holds the cardholder name the
  component rendered with, the line items and the total; when the component rendered
  with the store's current \<open>cardholderName\<close> field, that name is the store's current,
  non-empty value. When the validator returns \<open>false\<close>, the click returns normally and
  its only effects are the validator's dispatches: no event and no submission.
\<close>

theorem click_outcome:
  "(fst (isCreditCardFormValid store ''stripe'' tr s) = Inr True \<longrightarrow>
      CreditCardPayButton_onClick store tr stripe stripeConfiguration cardholderName items total' s =
        (Inr (), s,
         [Event ''STRIPE_TRANSACTION_BEGIN'',
          Submit ''card''
            \<lparr> payload_stripe = stripe,
              payload_name = (case cardholderName of None \<Rightarrow> JUndefined
                              | Some f \<Rightarrow> JStr (field_value f)),
              payload_items = items,
              payload_total = total',
              payload_stripeConfiguration = stripeConfiguration,
              payload_paymentPartner = ''stripe'' \<rparr>])
      \<and> (\<exists>f. getFields store s ''cardholderName'' = Some f \<and> field_value f \<noteq> [] \<and>
            CreditCardPayButton_onClick store tr stripe stripeConfiguration (getFields store s ''cardholderName'')
              items total' s =
              (Inr (), s,
               [Event ''STRIPE_TRANSACTION_BEGIN'',
                Submit ''card''
                  \<lparr> payload_stripe = stripe,
                    payload_name = JStr (field_value f),
                    payload_items = items,
                    payload_total = total',
                    payload_stripeConfiguration = stripeConfiguration,
                    payload_paymentPartner = ''stripe'' \<rparr>])))
   \<and> (fst (isCreditCardFormValid store ''stripe'' tr s) = Inr False \<longrightarrow>
        fst (CreditCardPayButton_onClick store tr stripe stripeConfiguration cardholderName items total' s) = Inr ()
        \<and> snd (snd (CreditCardPayButton_onClick store tr stripe stripeConfiguration cardholderName items total' s))
            = map Dispatch (snd (snd (isCreditCardFormValid store ''stripe'' tr s)))
        \<and> filter (\<lambda>e. \<not> isDispatch e)
            (snd (snd (CreditCardPayButton_onClick store tr stripe stripeConfiguration cardholderName items total' s)))
            = [])
   \<and> (fst (isCreditCardFormValid store ''stripe'' tr s) = Inr True
        \<or> fst (isCreditCardFormValid store ''stripe'' tr s) = Inr False)"
proof (intro conjI impI)
  assume v: "fst (isCreditCardFormValid store ''stripe'' tr s) = Inr True"
  from validator_valid [OF v]
  have run: "isCreditCardFormValid store ''stripe'' tr s = (Inr True, s, [])"
    and name: "\<exists>f. getFields store s ''cardholderName'' = Some f \<and> field_value f \<noteq> []"
    by simp_all
  have click: "\<And>c. CreditCardPayButton_onClick store tr stripe stripeConfiguration c items total' s =
        (Inr (), s,
         [Event ''STRIPE_TRANSACTION_BEGIN'',
          Submit ''card''
            \<lparr> payload_stripe = stripe,
              payload_name = (case c of None \<Rightarrow> JUndefined | Some f \<Rightarrow> JStr (field_value f)),
              payload_items = items,
              payload_total = total',
              payload_stripeConfiguration = stripeConfiguration,
              payload_paymentPartner = ''stripe'' \<rparr>])"
    by (simp add: CreditCardPayButton_onClick_def run)
  show "CreditCardPayButton_onClick store tr stripe stripeConfiguration cardholderName items total' s =
        (Inr (), s,
         [Event ''STRIPE_TRANSACTION_BEGIN'',
          Submit ''card''
            \<lparr> payload_stripe = stripe,
              payload_name = (case cardholderName of None \<Rightarrow> JUndefined
                              | Some f \<Rightarrow> JStr (field_value f)),
              payload_items = items,
              payload_total = total',
              payload_stripeConfiguration = stripeConfiguration,
              payload_paymentPartner = ''stripe'' \<rparr>])"
    by (rule click)
  from name obtain f where f: "getFields store s ''cardholderName'' = Some f" "field_value f \<noteq> []"
    by blast
  then show "\<exists>f. getFields store s ''cardholderName'' = Some f \<and> field_value f \<noteq> [] \<and>
            CreditCardPayButton_onClick store tr stripe stripeConfiguration (getFields store s ''cardholderName'')
              items total' s =
              (Inr (), s,
               [Event ''STRIPE_TRANSACTION_BEGIN'',
                Submit ''card''
                  \<lparr> payload_stripe = stripe,
                    payload_name = JStr (field_value f),
                    payload_items = items,
                    payload_total = total',
                    payload_stripeConfiguration = stripeConfiguration,
                    payload_paymentPartner = ''stripe'' \<rparr>])"
    by (simp add: click)
next
  assume i: "fst (isCreditCardFormValid store ''stripe'' tr s) = Inr False"
  then obtain s1 acts where run: "isCreditCardFormValid store ''stripe'' tr s = (Inr False, s1, acts)"
    by (metis prod.collapse)
  then have click: "CreditCardPayButton_onClick store tr stripe stripeConfiguration cardholderName items total' s
                = (Inr (), s1, map Dispatch acts)"
    by (simp add: CreditCardPayButton_onClick_def)
  show "fst (CreditCardPayButton_onClick store tr stripe stripeConfiguration cardholderName items total' s) = Inr ()"
    by (simp add: click)
  show "snd (snd (CreditCardPayButton_onClick store tr stripe stripeConfiguration cardholderName items total' s))
            = map Dispatch (snd (snd (isCreditCardFormValid store ''stripe'' tr s)))"
    by (simp add: click run)
  show "filter (\<lambda>e. \<not> isDispatch e)
            (snd (snd (CreditCardPayButton_onClick store tr stripe stripeConfiguration cardholderName items total' s)))
            = []"
    by (simp add: click filter_not_isDispatch)
next
  show "fst (isCreditCardFormValid store ''stripe'' tr s) = Inr True
        \<or> fst (isCreditCardFormValid store ''stripe'' tr s) = Inr False"
    by (auto simp: validator_stripe Let_def)
qed

theorem click_outcome_witness:
  "CreditCardPayButton_onClick creditCardStore (\<lambda>t. t) (7::nat) (8::nat) (st_fields validState ''cardholderName'')
     [total999] total999 validState =
     (Inr (), validState,
      [Event ''STRIPE_TRANSACTION_BEGIN'',
       Submit ''card''
         \<lparr> payload_stripe = 7,
           payload_name = JStr ''Ada Lovelace'',
           payload_items = [total999],
           payload_total = total999,
           payload_stripeConfiguration = 8,
           payload_paymentPartner = ''stripe'' \<rparr>])
   \<and> CreditCardPayButton_onClick creditCardStore (\<lambda>t. t) (7::nat) (8::nat) (st_fields incompleteState ''cardholderName'')
       [total999] total999 incompleteState =
       (Inr (),
        incompleteState\<lparr>st_cardDataErrors :=
          [(''cardCvc'', JStr ''This field is required''),
           (''cardExpiry'', JStr ''This field is required'')]\<rparr>,
        [Dispatch (setCardDataError ''cardCvc'' ''This field is required''),
         Dispatch (setCardDataError ''cardExpiry'' ''This field is required'')])"
  using click_outcome [of creditCardStore "\<lambda>t. t" validState 7 8
                          "st_fields validState ''cardholderName''" "[total999]" total999]
        click_outcome [of creditCardStore "\<lambda>t. t" incompleteState 7 8
                          "st_fields incompleteState ''cardholderName''" "[total999]" total999]
  by (simp add: CreditCardPayButton_onClick_def isCreditCardFormValid_def creditCardStore_def validState_def
                incompleteState_def noValueLength_def keys_def propOf_def dispatch_def)

subsection \<open>What the validator writes\<close>

text \<open>
  C10. On a store that meets the frame conditions, the validator (partner \<^verbatim>\<open>"stripe"\<close>)
  dispatches nothing but the touch of \<open>cardholderName\<close> with the empty string and "set
  card data error" actions for incomplete keys, and its error writes are exactly those
  for the keys of the incomplete list; every field other than \<open>cardholderName\<close> and
  every error entry of a key outside the incomplete list is, in the state the call
  leaves, what it was before the call; and the boolean result is the source's decision
  taken on the error mapping, the name and the incomplete keys of the state in which the
  validator was called, so the error writes of the call have no part in it.
\<close>

theorem validator_frame:
  assumes "writesOnlyNamedKey store"
  shows "set (snd (snd (isCreditCardFormValid store ''stripe'' tr s)))
           \<subseteq> insert (setFieldValue ''cardholderName'' '''')
               ((\<lambda>key. setCardDataError key (tr ''This field is required''))
                  ` set (getIncompleteFieldKeys store s))
       \<and> filter isSetCardDataError (snd (snd (isCreditCardFormValid store ''stripe'' tr s)))
           = map (\<lambda>key. setCardDataError key (tr ''This field is required''))
               (getIncompleteFieldKeys store s)
       \<and> (\<forall>j. j \<noteq> ''cardholderName'' \<longrightarrow>
            getFields store (fst (snd (isCreditCardFormValid store ''stripe'' tr s))) j
              = getFields store s j)
       \<and> (\<forall>j. j \<notin> set (getIncompleteFieldKeys store s) \<longrightarrow>
            map_of (getCardDataErrors store (fst (snd (isCreditCardFormValid store ''stripe'' tr s)))) j
              = map_of (getCardDataErrors store s) j)
       \<and> fst (isCreditCardFormValid store ''stripe'' tr s)
           = Inr (\<not> (list_ex (\<lambda>errorKey. truthy (propOf (getCardDataErrors store s) errorKey))
                        (keys (getCardDataErrors store s))
                     \<or> noValueLength (getFields store s ''cardholderName'')
                     \<or> getIncompleteFieldKeys store s \<noteq> []))"
proof -
  let ?touch = "setFieldValue ''cardholderName'' ''''"
  from assms have touch:
    "\<And>j. j \<noteq> ''cardholderName'' \<Longrightarrow> getFields store (reducer store ?touch s) j = getFields store s j"
    "getCardDataErrors store (reducer store ?touch s) = getCardDataErrors store s"
    "getIncompleteFieldKeys store (reducer store ?touch s) = getIncompleteFieldKeys store s"
    by (simp_all add: writesOnlyNamedKey_def)
  note fold = fold_errors_frame [OF assms]
  show ?thesis
    by (auto simp: validator_stripe Let_def filter_map_errors touch fold)
qed

theorem validator_frame_witness:
  "writesOnlyNamedKey creditCardStore
   \<and> snd (snd (isCreditCardFormValid creditCardStore ''stripe'' (\<lambda>t. t) frameState))
       = [setFieldValue ''cardholderName'' '''',
          setCardDataError ''cardCvc'' ''This field is required'']
   \<and> st_fields (fst (snd (isCreditCardFormValid creditCardStore ''stripe'' (\<lambda>t. t) frameState)))
       ''postalCode'' = Some \<lparr>field_value = ''90210''\<rparr>
   \<and> map_of (st_cardDataErrors
         (fst (snd (isCreditCardFormValid creditCardStore ''stripe'' (\<lambda>t. t) frameState))))
       ''cardNumber'' = Some (JStr ''Your card number is invalid.'')
   \<and> fst (isCreditCardFormValid creditCardStore ''stripe'' (\<lambda>t. t) frameState) = Inr False"
proof -
  have frame: "writesOnlyNamedKey creditCardStore"
    by (simp add: writesOnlyNamedKey_def creditCardStore_def update_conv')
  from validator_frame [OF frame, of "\<lambda>t. t" frameState] frame show ?thesis
    by (simp add: isCreditCardFormValid_def creditCardStore_def frameState_def
                  noValueLength_def keys_def propOf_def dispatch_def)
qed

end
